theory Spec2Isabelle
  imports Complex_Main "HOL-Library.DAList"
begin

section \<open>The Newtonian state estimator of \<^verbatim>\<open>model.py\<close>\<close>

text \<open>
  A shallow embedding of the class \<^verbatim>\<open>NewtonStateEngine\<close>: its constructor, its ingestion
  method \<^verbatim>\<open>tick\<close> and its prediction method \<^verbatim>\<open>predict\<close>.

  Conventions of the embedding.
  \<^item> Positions are scalars, and Python's floating-point numbers are the type \<open>real\<close>:
    rounding, overflow and the values \<^verbatim>\<open>inf\<close> and \<^verbatim>\<open>nan\<close> are not part of the model. The
    integer \<^verbatim>\<open>0\<close> that the constructor stores in \<^verbatim>\<open>last_pos\<close> is the real number 0.
  \<^item> The instance is a record that every method takes and gives back.
  \<^item> The dictionary \<^verbatim>\<open>field_vectors\<close> is an association list with distinct keys, in
    insertion order (a Python \<^verbatim>\<open>dict\<close> keeps it, and \<^verbatim>\<open>values()\<close> follows it); storing
    under a key that is present replaces the value where it stands.
  \<^item> The dictionaries that \<^verbatim>\<open>predict\<close> returns are values of \<open>py_value\<close>, with their keys
    as the source spells them.
  \<^item> An exception of Python or numpy is a value \<open>Inl e\<close> of the result.
\<close>

subsection \<open>Values and errors\<close>

datatype py_error = ValueError | IndexError

datatype py_value =
    PyNum real
  | PyStr string
  | PyList "py_value list"
  | PyDict "(string \<times> py_value) list"

subsection \<open>The numpy and list operations that \<^verbatim>\<open>predict\<close> calls\<close>

text \<open>\<^verbatim>\<open>xs[-1]\<close>: the last element, \<^verbatim>\<open>IndexError\<close> on an empty sequence.\<close>

definition py_last :: "'a list \<Rightarrow> py_error + 'a" where
  "py_last xs = (if xs = [] then Inl IndexError else Inr (last xs))"

text \<open>
  \<^verbatim>\<open>np.gradient(f)\<close> on a one-dimensional array with unit spacing and the default
  \<^verbatim>\<open>edge_order=1\<close>: one-sided differences at the two ends, central differences inside;
  \<^verbatim>\<open>ValueError\<close> when the array has fewer than two elements.
\<close>

definition np_gradient :: "real list \<Rightarrow> py_error + real list" where
  "np_gradient f =
     (let n = length f in
      if n < 2 then Inl ValueError
      else Inr (map (\<lambda>i. if i = 0 then f ! 1 - f ! 0
                          else if i = n - 1 then f ! (n - 1) - f ! (n - 2)
                          else (f ! (i + 1) - f ! (i - 1)) / 2) [0..<n]))"

text \<open>
  \<^verbatim>\<open>np.var(xs)\<close>: the population variance (\<^verbatim>\<open>ddof=0\<close>), the mean of the squared
  deviations from the mean. \<^verbatim>\<open>predict\<close> calls it on two values or more.
\<close>

definition np_mean :: "real list \<Rightarrow> real" where
  "np_mean xs = sum_list xs / real (length xs)"

definition np_var :: "real list \<Rightarrow> real" where
  "np_var xs = np_mean (map (\<lambda>x. (x - np_mean xs)\<^sup>2) xs)"

text \<open>
  \<^verbatim>\<open>np.argmin(xs)\<close>: the index of the first occurrence of the minimum, \<^verbatim>\<open>ValueError\<close> on
  an empty array.
\<close>

fun first_min_index :: "real list \<Rightarrow> nat" where
  "first_min_index [] = 0"
| "first_min_index [x] = 0"
| "first_min_index (x # y # ys) =
     (let j = first_min_index (y # ys) in if x \<le> (y # ys) ! j then 0 else Suc j)"

definition np_argmin :: "real list \<Rightarrow> py_error + nat" where
  "np_argmin xs = (if xs = [] then Inl ValueError else Inr (first_min_index xs))"

text \<open>\<^verbatim>\<open>xs[i]\<close> for an index that is not negative.\<close>

definition py_index :: "'a list \<Rightarrow> nat \<Rightarrow> py_error + 'a" where
  "py_index xs i = (if i < length xs then Inr (xs ! i) else Inl IndexError)"

text \<open>\<^verbatim>\<open>np.sign(x)\<close> is -1, 0 or 1.\<close>

definition np_sign :: "real \<Rightarrow> real" where
  "np_sign x = (if x < 0 then - 1 else if x = 0 then 0 else 1)"

text \<open>\<^verbatim>\<open>np.clip(x, lo, hi)\<close> is \<^verbatim>\<open>minimum(maximum(x, lo), hi)\<close>.\<close>

definition np_clip :: "real \<Rightarrow> real \<Rightarrow> real \<Rightarrow> real" where
  "np_clip x lo hi = min (max x lo) hi"

subsection \<open>Configuration and state\<close>

definition EVASION_FACTOR :: real where
  "EVASION_FACTOR = 2.4"

definition DISSIPATION_THRESHOLD :: real where
  "DISSIPATION_THRESHOLD = 0.6"

record 'k NewtonStateEngine =
  state_buffer :: "real list"
  buffer_size :: nat
  last_pos :: real
  field_vectors :: "('k, real) alist"

text \<open>\<^verbatim>\<open>__init__\<close>.\<close>

definition NewtonStateEngine_init :: "'k NewtonStateEngine" where
  "NewtonStateEngine_init =
     \<lparr>state_buffer = [], buffer_size = 25, last_pos = 0, field_vectors = DAList.empty\<rparr>"

text \<open>
  The payload of \<^verbatim>\<open>tick\<close>: \<^verbatim>\<open>payload.get(key)\<close> is \<open>None\<close> for a key that is absent
  (or stored as \<^verbatim>\<open>None\<close>).
\<close>

record 'k payload =
  dove_location :: "real option"
  falcon_location :: "real option"
  falcon_id :: "'k option"

subsection \<open>Ingestion\<close>

text \<open>
  \<^verbatim>\<open>tick(payload, performance_metrics)\<close>. \<^verbatim>\<open>pop(0)\<close> removes the first element of a list
  that holds at least the element just appended. The metrics are never read.
\<close>

definition tick :: "'k NewtonStateEngine \<Rightarrow> 'k payload \<Rightarrow> 'm \<Rightarrow> 'k NewtonStateEngine" where
  "tick self payload performance_metrics =
     (let curr_loc = dove_location payload;
          threat_loc = falcon_location payload;
          threat_id = falcon_id payload;
          self1 =
            (case curr_loc of
               None \<Rightarrow> self
             | Some c \<Rightarrow>
                 (let appended = state_buffer self @ [c] in
                  self\<lparr>last_pos := c,
                       state_buffer :=
                         (if length appended > buffer_size self then tl appended
                          else appended)\<rparr>))
      in (case (threat_loc, threat_id) of
            (Some l, Some i) \<Rightarrow>
              self1\<lparr>field_vectors := DAList.update i l (field_vectors self1)\<rparr>
          | _ \<Rightarrow> self1))"

text \<open>A sequence of calls of \<^verbatim>\<open>tick\<close>, each with its payload and its metrics.\<close>

fun ticks :: "'k NewtonStateEngine \<Rightarrow> ('k payload \<times> 'm) list \<Rightarrow> 'k NewtonStateEngine" where
  "ticks self [] = self"
| "ticks self ((payload, metrics) # rest) = ticks (tick self payload metrics) rest"

subsection \<open>Prediction\<close>

text \<open>
  The dictionary \<^verbatim>\<open>{"type": "scipy", "name": "norm", "params": {"loc": loc, "scale":
  scale}}\<close>, which the source writes out four times.
\<close>

definition norm_density :: "real \<Rightarrow> real \<Rightarrow> py_value" where
  "norm_density loc scale =
     PyDict [(''type'', PyStr ''scipy''), (''name'', PyStr ''norm''),
             (''params'', PyDict [(''loc'', PyNum loc), (''scale'', PyNum scale)])]"

text \<open>
  Step 1 of \<^verbatim>\<open>predict\<close>, the inertial vector: velocity and acceleration are the last
  entries of the gradient and of the gradient of the gradient of the path.
\<close>

definition inertial_vector :: "real list \<Rightarrow> real \<Rightarrow> py_error + real" where
  "inertial_vector path_array lastp =
     (case np_gradient path_array of
        Inl e \<Rightarrow> Inl e
      | Inr g \<Rightarrow>
     (case py_last g of
        Inl e \<Rightarrow> Inl e
      | Inr velocity \<Rightarrow>
     (case np_gradient g of
        Inl e \<Rightarrow> Inl e
      | Inr gg \<Rightarrow>
     (case py_last gg of
        Inl e \<Rightarrow> Inl e
      | Inr acceleration \<Rightarrow> Inr (lastp + velocity + 0.5 * acceleration)))))"

text \<open>
  Step 2, the dissipative field analysis: the triple \<^verbatim>\<open>(field_variance,
  closest_threat_loc, repulsion_dir)\<close>.
\<close>

definition field_analysis :: "real list \<Rightarrow> real \<Rightarrow> py_error + (real \<times> real option \<times> real)" where
  "field_analysis threats lastp =
     (if length threats > 0 then
        (let field_variance = (if length threats > 1 then np_var threats else 1.0);
             dist_matrix = map (\<lambda>t. \<bar>t - lastp\<bar>) threats
         in (case np_argmin dist_matrix of
               Inl e \<Rightarrow> Inl e
             | Inr closest_threat_idx \<Rightarrow>
            (case py_index threats closest_threat_idx of
               Inl e \<Rightarrow> Inl e
             | Inr closest_threat_loc \<Rightarrow>
                 Inr (field_variance, Some closest_threat_loc,
                      np_sign (lastp - closest_threat_loc)))))
      else Inr (10.0, None, 0))"

text \<open>Step 4, the dynamic weighting: the cohesion index and the triple \<^verbatim>\<open>(w_a, w_b, w_c)\<close>.\<close>

definition cohesion_index :: "real \<Rightarrow> real" where
  "cohesion_index field_variance = np_clip (1.0 / (field_variance + 0.1)) 0.0 1.0"

definition weight_assignment :: "real \<Rightarrow> real \<times> real \<times> real" where
  "weight_assignment cohesion =
     (let w_b = cohesion * 0.8;
          w_c = 0.05;
          w_a = 1.0 - w_b - w_c
      in if w_a < 0 then (0, 1.0 - w_c, w_c) else (w_a, w_b, w_c))"

text \<open>Step 5, the dictionary of the three-component mixture.\<close>

definition mixture_output :: "(real \<times> real \<times> real) list \<Rightarrow> py_value" where
  "mixture_output comps =
     PyDict [(''density'',
              PyDict [(''type'', PyStr ''mixture''),
                      (''components'',
                       PyList (map (\<lambda>(loc, scale, w).
                                 PyDict [(''density'', norm_density loc scale),
                                         (''weight'', PyNum w)]) comps))]),
             (''weight'', PyNum 1.0)]"

text \<open>
  \<^verbatim>\<open>predict()\<close>: the result (or the exception) and the instance after the call.
\<close>

definition predict :: "'k NewtonStateEngine \<Rightarrow> (py_error + py_value) \<times> 'k NewtonStateEngine" where
  "predict self =
     (if length (state_buffer self) < 5 then
        (Inr (PyDict [(''density'', norm_density (last_pos self) 2.0),
                      (''weight'', PyNum 1.0)]), self)
      else
        (case inertial_vector (state_buffer self) (last_pos self) of
           Inl e \<Rightarrow> (Inl e, self)
         | Inr inertial_mean \<Rightarrow>
        (case field_analysis (map snd (DAList.impl_of (field_vectors self))) (last_pos self) of
           Inl e \<Rightarrow> (Inl e, self)
         | Inr (field_variance, closest_threat_loc, repulsion_dir) \<Rightarrow>
             (let loc_a = inertial_mean;
                  scale_a = 0.2 + 0.1 * field_variance;
                  (loc_b, scale_b) =
                    (case closest_threat_loc of
                       Some t \<Rightarrow> (last_pos self + EVASION_FACTOR * repulsion_dir, 0.15)
                     | None \<Rightarrow> (loc_a, scale_a));
                  loc_c = last_pos self;
                  scale_c = 4.0;
                  (w_a, w_b, w_c) = weight_assignment (cohesion_index field_variance)
              in (Inr (mixture_output
                         [(loc_a, scale_a, w_a), (loc_b, scale_b, w_b), (loc_c, scale_c, w_c)]),
                  self)))))"

subsection \<open>Observations and the shapes of the returned record\<close>

text \<open>
  An observation that carries a signal position: the payload \<^verbatim>\<open>{"dove_location": c,
  "falcon_location": threat_loc, "falcon_id": threat_id}\<close> (either of the last two may be
  absent) with the metrics passed along with it.
\<close>

definition observe :: "real \<times> real option \<times> 'k option \<times> 'm \<Rightarrow> 'k payload \<times> 'm" where
  "observe = (\<lambda>(c, threat_loc, threat_id, metrics).
     (\<lparr>dove_location = Some c, falcon_location = threat_loc, falcon_id = threat_id\<rparr>, metrics))"

text \<open>Five observations of linear motion, positions 0 to 4, with no threat.\<close>

definition linear_run :: "(real \<times> real option \<times> 'k option \<times> unit) list" where
  "linear_run = [(0, None, None, ()), (1, None, None, ()), (2, None, None, ()),
                 (3, None, None, ()), (4, None, None, ())]"

text \<open>\<^verbatim>\<open>d.get(k)\<close> on a returned value, and the test that a field holds a number.\<close>

fun dict_get :: "py_value \<Rightarrow> string \<Rightarrow> py_value option" where
  "dict_get (PyDict kvs) k = map_of kvs k"
| "dict_get v k = None"

fun is_number :: "py_value option \<Rightarrow> bool" where
  "is_number (Some (PyNum x)) = True"
| "is_number v = False"

text \<open>
  The two shapes of the external interface as its description words them:
  \<^verbatim>\<open>{kind: "single", family: "normal", location, scale, weight}\<close> and
  \<^verbatim>\<open>{kind: "mixture", components: [{density: <single-density record>, weight}, ...],
  weight}\<close>.
\<close>

definition spec_single_record :: "py_value \<Rightarrow> bool" where
  "spec_single_record v =
     (dict_get v ''kind'' = Some (PyStr ''single'') \<and>
      dict_get v ''family'' = Some (PyStr ''normal'') \<and>
      is_number (dict_get v ''location'') \<and>
      is_number (dict_get v ''scale'') \<and>
      is_number (dict_get v ''weight''))"

definition spec_component :: "py_value \<Rightarrow> bool" where
  "spec_component c =
     ((case dict_get c ''density'' of Some d \<Rightarrow> spec_single_record d | None \<Rightarrow> False) \<and>
      is_number (dict_get c ''weight''))"

definition spec_mixture_record :: "py_value \<Rightarrow> bool" where
  "spec_mixture_record v =
     (dict_get v ''kind'' = Some (PyStr ''mixture'') \<and>
      (case dict_get v ''components'' of
         Some (PyList cs) \<Rightarrow> list_all spec_component cs
       | _ \<Rightarrow> False) \<and>
      is_number (dict_get v ''weight''))"

definition spec_prediction_record :: "py_value \<Rightarrow> bool" where
  "spec_prediction_record v = (spec_single_record v \<or> spec_mixture_record v)"

text \<open>
  The two shapes with the keys and tags that \<^verbatim>\<open>predict\<close> writes:
  \<^verbatim>\<open>{"density": {"type": "scipy", "name": "norm", "params": {"loc", "scale"}},
  "weight"}\<close> and \<^verbatim>\<open>{"density": {"type": "mixture", "components": [...]}, "weight"}\<close>,
  each component being a record of the first shape.
\<close>

definition is_norm_density :: "py_value \<Rightarrow> bool" where
  "is_norm_density d =
     (dict_get d ''type'' = Some (PyStr ''scipy'') \<and>
      dict_get d ''name'' = Some (PyStr ''norm'') \<and>
      (case dict_get d ''params'' of
         Some ps \<Rightarrow> is_number (dict_get ps ''loc'') \<and> is_number (dict_get ps ''scale'')
       | None \<Rightarrow> False))"

definition is_weighted_norm :: "py_value \<Rightarrow> bool" where
  "is_weighted_norm c =
     ((case dict_get c ''density'' of Some d \<Rightarrow> is_norm_density d | None \<Rightarrow> False) \<and>
      is_number (dict_get c ''weight''))"

definition is_weighted_mixture :: "py_value \<Rightarrow> bool" where
  "is_weighted_mixture v =
     ((case dict_get v ''density'' of
         Some d \<Rightarrow>
           dict_get d ''type'' = Some (PyStr ''mixture'') \<and>
           (case dict_get d ''components'' of
              Some (PyList cs) \<Rightarrow> list_all is_weighted_norm cs
            | _ \<Rightarrow> False)
       | None \<Rightarrow> False) \<and>
      is_number (dict_get v ''weight''))"

section \<open>Properties\<close>

subsection \<open>The numeric steps never raise\<close>

lemma np_gradient_Inr:
  "2 \<le> length f \<Longrightarrow> \<exists>g. np_gradient f = Inr g \<and> length g = length f"
  by (simp add: np_gradient_def Let_def)

lemma inertial_vector_Inr:
  assumes "2 \<le> length path_array"
  shows "\<exists>m. inertial_vector path_array lastp = Inr m"
proof -
  obtain g where g: "np_gradient path_array = Inr g" "length g = length path_array"
    using np_gradient_Inr [OF assms] by blast
  then have "2 \<le> length g" using assms by simp
  then obtain gg where gg: "np_gradient g = Inr gg" "length gg = length g"
    using np_gradient_Inr by blast
  have "g \<noteq> []" "gg \<noteq> []" using g gg assms by auto
  then show ?thesis
    by (simp add: inertial_vector_def g gg py_last_def)
qed

lemma first_min_index_less: "xs \<noteq> [] \<Longrightarrow> first_min_index xs < length xs"
  by (induction xs rule: first_min_index.induct) (auto simp: Let_def)

lemma np_var_nonneg: "0 \<le> np_var xs"
  unfolding np_var_def np_mean_def
  by (intro divide_nonneg_nonneg sum_list_nonneg) auto

lemma field_analysis_empty: "field_analysis [] lastp = Inr (10, None, 0)"
  by (simp add: field_analysis_def)

lemma field_analysis_Inr:
  "\<exists>fv c r. field_analysis threats lastp = Inr (fv, c, r) \<and> 0 \<le> fv \<and> (c = None \<longleftrightarrow> threats = [])"
proof (cases "threats = []")
  case True
  then show ?thesis by (simp add: field_analysis_empty)
next
  case False
  then have "first_min_index (map (\<lambda>t. \<bar>t - lastp\<bar>) threats) < length threats"
    using first_min_index_less [of "map (\<lambda>t. \<bar>t - lastp\<bar>) threats"] by simp
  with False show ?thesis
    by (simp add: field_analysis_def Let_def np_argmin_def py_index_def np_var_nonneg)
qed

lemma cohesion_index_bounds: "0 \<le> cohesion_index fv \<and> cohesion_index fv \<le> 1"
  by (simp add: cohesion_index_def np_clip_def)

lemma weight_assignment_sum:
  "weight_assignment c = (wa, wb, wc) \<Longrightarrow> wa + wb + wc = 1"
  by (auto simp: weight_assignment_def Let_def split: if_splits)

lemma weight_assignment_cohesion:
  "weight_assignment (cohesion_index fv) =
     (1 - cohesion_index fv * 0.8 - 0.05, cohesion_index fv * 0.8, 0.05)"
  using cohesion_index_bounds [of fv]
  by (simp add: weight_assignment_def Let_def)

lemma predict_warm:
  assumes "5 \<le> length (state_buffer self)"
  shows "\<exists>m fv c r.
           inertial_vector (state_buffer self) (last_pos self) = Inr m \<and>
           field_analysis (map snd (DAList.impl_of (field_vectors self))) (last_pos self)
             = Inr (fv, c, r) \<and>
           fst (predict self) =
             Inr (mixture_output
               [(m, 0.2 + 0.1 * fv, 1 - cohesion_index fv * 0.8 - 0.05),
                (case c of Some t \<Rightarrow> last_pos self + EVASION_FACTOR * r | None \<Rightarrow> m,
                 case c of Some t \<Rightarrow> 0.15 | None \<Rightarrow> 0.2 + 0.1 * fv,
                 cohesion_index fv * 0.8),
                (last_pos self, 4, 0.05)])"
proof -
  obtain m where m: "inertial_vector (state_buffer self) (last_pos self) = Inr m"
    using inertial_vector_Inr [of "state_buffer self" "last_pos self"] assms by auto
  obtain fv c r where f:
    "field_analysis (map snd (DAList.impl_of (field_vectors self))) (last_pos self) = Inr (fv, c, r)"
    using field_analysis_Inr by blast
  show ?thesis
    using assms
    by (simp add: predict_def m f weight_assignment_cohesion Let_def split: option.split)
qed

subsection \<open>The sliding window\<close>

lemma tick_buffer_size: "buffer_size (tick s p m) = buffer_size s"
  by (simp add: tick_def Let_def split: option.splits)

lemma tick_state_buffer:
  "state_buffer (tick s p m) =
     (case dove_location p of
        None \<Rightarrow> state_buffer s
      | Some c \<Rightarrow>
          (if length (state_buffer s) + 1 > buffer_size s then tl (state_buffer s @ [c])
           else state_buffer s @ [c]))"
  by (simp add: tick_def Let_def split: option.splits)

lemma tick_length_le:
  "length (state_buffer s) \<le> buffer_size s \<Longrightarrow>
     length (state_buffer (tick s p m)) \<le> buffer_size s"
  by (auto simp: tick_state_buffer split: option.splits)

lemma ticks_length_le:
  "length (state_buffer s) \<le> buffer_size s \<Longrightarrow>
     length (state_buffer (ticks s ps)) \<le> buffer_size (ticks s ps)"
proof (induction ps arbitrary: s)
  case Nil
  then show ?case by simp
next
  case (Cons p ps)
  obtain pl m where p: "p = (pl, m)" by (cases p)
  have "length (state_buffer (tick s pl m)) \<le> buffer_size (tick s pl m)"
    using tick_length_le [OF Cons.prems] by (simp add: tick_buffer_size)
  from Cons.IH [OF this] show ?case by (simp add: p)
qed

lemma window_step:
  assumes "length b \<le> cap"
  shows "drop (length (if length b + 1 > cap then tl (b @ [c]) else b @ [c]) + n - cap)
           ((if length b + 1 > cap then tl (b @ [c]) else b @ [c]) @ r)
         = drop (length b + 1 + n - cap) (b @ c # r)"
proof (cases "length b + 1 > cap")
  case False
  then show ?thesis by simp
next
  case True
  with assms have len: "length b = cap" by simp
  have l: "length (tl (b @ [c])) + n - cap = n" using len by simp
  have t: "tl (b @ [c]) @ r = tl (b @ c # r)" by (cases b) simp_all
  have "drop (length b + 1 + n - cap) (b @ c # r) = drop (Suc n) (b @ c # r)"
    using len by simp
  also have "\<dots> = drop n (tl (b @ c # r))" by (simp only: drop_Suc)
  finally have r: "drop (length b + 1 + n - cap) (b @ c # r) = drop n (tl (b @ c # r))" .
  show ?thesis
    unfolding r using True by (simp only: if_True l t)
qed

lemma ticks_window:
  "length (state_buffer s) \<le> buffer_size s \<Longrightarrow>
     buffer_size (ticks s (map observe obs)) = buffer_size s \<and>
     state_buffer (ticks s (map observe obs)) =
       drop (length (state_buffer s) + length obs - buffer_size s)
            (state_buffer s @ map fst obs)"
proof (induction obs arbitrary: s)
  case Nil
  then show ?case by simp
next
  case (Cons ob obs)
  obtain c tl' ti m where ob: "ob = (c, tl', ti, m)" by (cases ob) auto
  let ?p = "\<lparr>dove_location = Some c, falcon_location = tl', falcon_id = ti\<rparr>"
  let ?s = "tick s ?p m"
  have le: "length (state_buffer ?s) \<le> buffer_size ?s"
    using tick_length_le [OF Cons.prems] by (simp add: tick_buffer_size)
  have sb: "state_buffer ?s =
      (if length (state_buffer s) + 1 > buffer_size s then tl (state_buffer s @ [c])
       else state_buffer s @ [c])"
    by (simp add: tick_state_buffer)
  have "state_buffer (ticks ?s (map observe obs)) =
      drop (length (state_buffer ?s) + length obs - buffer_size s)
           (state_buffer ?s @ map fst obs)"
    using Cons.IH [OF le] by (simp add: tick_buffer_size)
  also have "\<dots> = drop (length (state_buffer s) + 1 + length obs - buffer_size s)
                     (state_buffer s @ c # map fst obs)"
    unfolding sb by (rule window_step [OF Cons.prems])
  finally show ?case
    using Cons.IH [OF le] by (simp add: ob observe_def tick_buffer_size)
qed

lemma update_one_entry:
  "distinct (map fst al) \<Longrightarrow> length (filter (\<lambda>e. fst e = k) (AList.update k v al)) = 1"
proof (induction al)
  case Nil
  then show ?case by simp
next
  case (Cons p ps)
  show ?case
  proof (cases "fst p = k")
    case True
    then have "k \<notin> fst ` set ps" using Cons.prems by simp
    then have "filter (\<lambda>e. fst e = k) ps = []"
      by (force simp: filter_empty_conv)
    then show ?thesis using True by simp
  next
    case False
    then show ?thesis using Cons by simp
  qed
qed

subsection \<open>The linear run\<close>

lemma linear_run_state:
  "ticks (NewtonStateEngine_init :: 'k NewtonStateEngine) (map observe linear_run) =
     \<lparr>state_buffer = [0, 1, 2, 3, 4], buffer_size = 25, last_pos = 4,
      field_vectors = DAList.empty\<rparr>"
  by (simp add: linear_run_def observe_def tick_def NewtonStateEngine_init_def)

lemma gradient_linear: "np_gradient [0, 1, 2, 3, 4] = Inr [1, 1, 1, 1, 1]"
  by (simp add: np_gradient_def upt_rec)

lemma gradient_constant: "np_gradient [1, 1, 1, 1, 1] = Inr [0, 0, 0, 0, 0]"
  by (simp add: np_gradient_def upt_rec)

subsection \<open>The returned record\<close>

lemma is_weighted_norm_literal:
  "is_weighted_norm (PyDict [(''density'', norm_density loc scale), (''weight'', PyNum w)])"
  by (simp add: is_weighted_norm_def is_norm_density_def norm_density_def)

lemma is_weighted_mixture_output:
  "is_weighted_mixture (mixture_output comps)"
  by (simp add: is_weighted_mixture_def mixture_output_def list_all_iff
      is_weighted_norm_literal split_beta)

subsection \<open>Warmup\<close>

text \<open>
  C1. With fewer than five samples in the signal history, \<^verbatim>\<open>predict\<close> returns, whatever
  the threat field holds, the single normal density located at the last known position
  with scale 2.0, under weight 1.0; the last known position of a new estimator is 0.
\<close>

theorem predict_warmup:
  "length (state_buffer self) < 5 \<Longrightarrow>
     fst (predict self) =
       Inr (PyDict [(''density'',
                     PyDict [(''type'', PyStr ''scipy''), (''name'', PyStr ''norm''),
                             (''params'', PyDict [(''loc'', PyNum (last_pos self)),
                                                  (''scale'', PyNum 2)])]),
                    (''weight'', PyNum 1)])
     \<and> last_pos (NewtonStateEngine_init :: 'k NewtonStateEngine) = 0"
  by (simp add: predict_def norm_density_def NewtonStateEngine_init_def)

theorem predict_warmup_witness:
  "length (state_buffer (ticks (NewtonStateEngine_init :: string NewtonStateEngine)
       (map observe [(3, Some 7, Some ''t1'', ()), (5, None, None, ())]))) < 5 \<and>
   fst (predict (ticks (NewtonStateEngine_init :: string NewtonStateEngine)
       (map observe [(3, Some 7, Some ''t1'', ()), (5, None, None, ())]))) =
       Inr (PyDict [(''density'',
                     PyDict [(''type'', PyStr ''scipy''), (''name'', PyStr ''norm''),
                             (''params'', PyDict [(''loc'', PyNum 5), (''scale'', PyNum 2)])]),
                    (''weight'', PyNum 1)])
   \<and> last_pos (NewtonStateEngine_init :: string NewtonStateEngine) = 0"
proof -
  let ?s = "ticks (NewtonStateEngine_init :: string NewtonStateEngine)
       (map observe [(3, Some 7, Some ''t1'', ()), (5, None, None, ())])"
  have sb: "state_buffer ?s = [3, 5]" and lp: "last_pos ?s = 5"
    by (simp_all add: observe_def tick_def NewtonStateEngine_init_def)
  have h: "length (state_buffer ?s) < 5" unfolding sb by simp
  from predict_warmup [OF h] h show ?thesis unfolding lp by blast
qed

subsection \<open>Weights\<close>

text \<open>
  C2. With at least five samples in the signal history, \<^verbatim>\<open>predict\<close> returns a mixture of
  three components whose weights add up to 1. The weighting step itself yields weights
  that add up to 1 on both of its paths: the normal one, \<open>w_a = 1 - w_b - w_c\<close>, and the
  clamped one, \<open>w_a = 0\<close> and \<open>w_b = 1 - w_c\<close>.
\<close>

theorem weight_conservation:
  "5 \<le> length (state_buffer self) \<Longrightarrow>
     (\<exists>loc_a scale_a w_a loc_b scale_b w_b loc_c scale_c w_c.
        fst (predict self) =
          Inr (mixture_output
                 [(loc_a, scale_a, w_a), (loc_b, scale_b, w_b), (loc_c, scale_c, w_c)]) \<and>
        w_a + w_b + w_c = 1) \<and>
     (\<forall>cohesion.
        weight_assignment cohesion =
          (if 1 - cohesion * 0.8 - 0.05 < 0 then (0, 1 - 0.05, 0.05)
           else (1 - cohesion * 0.8 - 0.05, cohesion * 0.8, 0.05)) \<and>
        (case weight_assignment cohesion of (w_a, w_b, w_c) \<Rightarrow> w_a + w_b + w_c) = 1)"
proof -
  assume warm: "5 \<le> length (state_buffer self)"
  from predict_warm [OF warm] obtain m fv and c :: "real option" and r where
    "fst (predict self) =
       Inr (mixture_output
         [(m, 0.2 + 0.1 * fv, 1 - cohesion_index fv * 0.8 - 0.05),
          (case c of Some t \<Rightarrow> last_pos self + EVASION_FACTOR * r | None \<Rightarrow> m,
           case c of Some t \<Rightarrow> 0.15 | None \<Rightarrow> 0.2 + 0.1 * fv,
           cohesion_index fv * 0.8),
          (last_pos self, 4, 0.05)])"
    by blast
  moreover have "(1 - cohesion_index fv * 0.8 - 0.05) + cohesion_index fv * 0.8 + 0.05 = (1::real)"
    by simp
  ultimately have first: "\<exists>loc_a scale_a w_a loc_b scale_b w_b loc_c scale_c w_c.
        fst (predict self) =
          Inr (mixture_output
                 [(loc_a, scale_a, w_a), (loc_b, scale_b, w_b), (loc_c, scale_c, w_c)]) \<and>
        w_a + w_b + w_c = 1"
    by blast
  have second: "\<forall>cohesion.
        weight_assignment cohesion =
          (if 1 - cohesion * 0.8 - 0.05 < 0 then (0, 1 - 0.05, 0.05)
           else (1 - cohesion * 0.8 - 0.05, cohesion * 0.8, 0.05)) \<and>
        (case weight_assignment cohesion of (w_a, w_b, w_c) \<Rightarrow> w_a + w_b + w_c) = 1"
    by (simp add: weight_assignment_def Let_def)
  from first second show ?thesis by (rule conjI)
qed

theorem weight_conservation_witness:
  "5 \<le> length (state_buffer \<lparr>state_buffer = [0, 1, 4, 9, 16], buffer_size = 25,
       last_pos = 16,
       field_vectors = DAList.update ''f2'' 20 (DAList.update ''f1'' 12 DAList.empty)\<rparr>) \<and>
   (\<exists>loc_a scale_a w_a loc_b scale_b w_b loc_c scale_c w_c.
        fst (predict \<lparr>state_buffer = [0, 1, 4, 9, 16], buffer_size = 25, last_pos = 16,
          field_vectors = DAList.update ''f2'' 20 (DAList.update ''f1'' 12 DAList.empty)\<rparr>) =
          Inr (mixture_output
                 [(loc_a, scale_a, w_a), (loc_b, scale_b, w_b), (loc_c, scale_c, w_c)]) \<and>
        w_a + w_b + w_c = 1) \<and>
   (\<forall>cohesion.
        weight_assignment cohesion =
          (if 1 - cohesion * 0.8 - 0.05 < 0 then (0, 1 - 0.05, 0.05)
           else (1 - cohesion * 0.8 - 0.05, cohesion * 0.8, 0.05)) \<and>
        (case weight_assignment cohesion of (w_a, w_b, w_c) \<Rightarrow> w_a + w_b + w_c) = 1)"
proof -
  let ?s = "\<lparr>state_buffer = [0, 1, 4, 9, 16], buffer_size = 25, last_pos = 16,
       field_vectors = DAList.update ''f2'' 20 (DAList.update ''f1'' 12 DAList.empty)\<rparr>"
  have w: "5 \<le> length (state_buffer ?s)" by simp
  from w weight_conservation [OF w] show ?thesis by (rule conjI)
qed



subsection \<open>Examples\<close>

text \<open>
  C3. A new estimator that ingests the positions 0, 1, 2, 3, 4 and no threat has velocity 1
  and acceleration 0 at the last sample, so component A is centred at 5; the field
  variance is 10.0, so the scale of A is 1.2 and the cohesion index is 1/10.1; component
  B has the centre and scale of A; \<open>w_b\<close> is 0.8 times the cohesion index, \<open>w_c\<close> is 0.05 and
  \<open>w_a = 1 - w_b - w_c\<close>, within 0.001 of 0.871.
\<close>

theorem end_to_end_example:
  "(let self = ticks (NewtonStateEngine_init :: 'k NewtonStateEngine) (map observe linear_run)
    in np_gradient (state_buffer self) = Inr [1, 1, 1, 1, 1] \<and>
       np_gradient [1, 1, 1, 1, 1] = Inr [0, 0, 0, 0, 0] \<and>
       inertial_vector (state_buffer self) (last_pos self) = Inr 5 \<and>
       field_analysis (map snd (DAList.impl_of (field_vectors self))) (last_pos self) =
         Inr (10.0, None, 0) \<and>
       cohesion_index 10.0 = 1 / 10.1 \<and>
       fst (predict self) =
         Inr (mixture_output
                [(5, 0.2 + 0.1 * 10.0, 1 - (1 / 10.1) * 0.8 - 0.05),
                 (5, 0.2 + 0.1 * 10.0, (1 / 10.1) * 0.8),
                 (4, 4.0, 0.05)]) \<and>
       \<bar>(1 - (1 / 10.1) * 0.8 - 0.05) - 0.871\<bar> < (0.001 :: real))"
proof -
  have iv: "inertial_vector [0, 1, 2, 3, 4] 4 = Inr 5"
    by (simp add: inertial_vector_def gradient_linear gradient_constant py_last_def)
  have ci: "cohesion_index 10.0 = 1 / 10.1"
    by (simp add: cohesion_index_def np_clip_def)
  have pr: "fst (predict \<lparr>state_buffer = [0, 1, 2, 3, 4], buffer_size = 25, last_pos = 4,
      field_vectors = (DAList.empty :: ('k, real) alist)\<rparr>) =
         Inr (mixture_output
                [(5, 0.2 + 0.1 * 10.0, 1 - (1 / 10.1) * 0.8 - 0.05),
                 (5, 0.2 + 0.1 * 10.0, (1 / 10.1) * 0.8),
                 (4, 4.0, 0.05)])"
    by (simp add: predict_def iv DAList.empty.rep_eq field_analysis_empty Let_def
        cohesion_index_def np_clip_def weight_assignment_def)
  have ap: "\<bar>(1 - (1 / 10.1) * 0.8 - 0.05) - 0.871\<bar> < (0.001 :: real)"
    by simp
  show ?thesis
    unfolding Let_def linear_run_state
    using iv ci pr ap
    by (simp add: gradient_linear gradient_constant DAList.empty.rep_eq field_analysis_empty)
qed

text \<open>
  C5. With an empty threat field and at least five samples, the field variance is 10.0,
  component B has exactly the centre and the scale of component A, and the cohesion index
  is 1/10.1, which clamping into [0, 1] leaves as it is.
\<close>

theorem no_threat_sentinel:
  "field_vectors self = DAList.empty \<Longrightarrow> 5 \<le> length (state_buffer self) \<Longrightarrow>
     \<exists>inertial_mean.
       inertial_vector (state_buffer self) (last_pos self) = Inr inertial_mean \<and>
       field_analysis (map snd (DAList.impl_of (field_vectors self))) (last_pos self) =
         Inr (10.0, None, 0) \<and>
       1 / (10.0 + 0.1) = (1 / 10.1 :: real) \<and>
       np_clip (1 / 10.1) 0.0 1.0 = 1 / 10.1 \<and>
       cohesion_index 10.0 = 1 / 10.1 \<and>
       fst (predict self) =
         Inr (mixture_output
                [(inertial_mean, 0.2 + 0.1 * 10.0, 1 - (1 / 10.1) * 0.8 - 0.05),
                 (inertial_mean, 0.2 + 0.1 * 10.0, (1 / 10.1) * 0.8),
                 (last_pos self, 4.0, 0.05)])"
proof -
  assume e: "field_vectors self = DAList.empty" and warm: "5 \<le> length (state_buffer self)"
  obtain m where m: "inertial_vector (state_buffer self) (last_pos self) = Inr m"
    using inertial_vector_Inr [of "state_buffer self" "last_pos self"] warm by auto
  have fa: "field_analysis (map snd (DAList.impl_of (field_vectors self))) (last_pos self) =
         Inr (10.0, None, 0)"
    by (simp add: e DAList.empty.rep_eq field_analysis_empty)
  have cl: "np_clip (1 / 10.1) 0.0 1.0 = 1 / 10.1"
    by (simp add: np_clip_def)
  have ci: "cohesion_index 10.0 = 1 / 10.1"
    by (simp add: cohesion_index_def np_clip_def)
  have pr: "fst (predict self) =
         Inr (mixture_output
                [(m, 0.2 + 0.1 * 10.0, 1 - (1 / 10.1) * 0.8 - 0.05),
                 (m, 0.2 + 0.1 * 10.0, (1 / 10.1) * 0.8),
                 (last_pos self, 4.0, 0.05)])"
    using warm
    by (simp add: predict_def m e DAList.empty.rep_eq field_analysis_empty Let_def
        cohesion_index_def np_clip_def weight_assignment_def)
  have ar: "1 / (10.0 + 0.1) = (1 / 10.1 :: real)" by simp
  from m fa ar cl ci pr show ?thesis by blast
qed

theorem no_threat_sentinel_witness:
  "field_vectors \<lparr>state_buffer = [1, 3, 6, 10, 15, 21], buffer_size = 25, last_pos = 21,
       field_vectors = (DAList.empty :: (string, real) alist)\<rparr> = DAList.empty \<and>
   5 \<le> length (state_buffer \<lparr>state_buffer = [1, 3, 6, 10, 15, 21], buffer_size = 25,
       last_pos = 21, field_vectors = (DAList.empty :: (string, real) alist)\<rparr>) \<and>
   fst (predict \<lparr>state_buffer = [1, 3, 6, 10, 15, 21], buffer_size = 25, last_pos = 21,
       field_vectors = (DAList.empty :: (string, real) alist)\<rparr>) =
     Inr (mixture_output
            [(27.25, 0.2 + 0.1 * 10.0, 1 - (1 / 10.1) * 0.8 - 0.05),
             (27.25, 0.2 + 0.1 * 10.0, (1 / 10.1) * 0.8),
             (21, 4.0, 0.05)])"
proof -
  let ?s = "\<lparr>state_buffer = [1, 3, 6, 10, 15, 21], buffer_size = 25, last_pos = 21,
       field_vectors = (DAList.empty :: (string, real) alist)\<rparr>"
  have e: "field_vectors ?s = DAList.empty" by simp
  have w: "5 \<le> length (state_buffer ?s)" by simp
  have g: "np_gradient [1, 3, 6, 10, 15, 21] = Inr [2, 5 / 2, 7 / 2, 9 / 2, 11 / 2, 6]"
    by (simp add: np_gradient_def upt_rec)
  have gg: "np_gradient [2, 5 / 2, 7 / 2, 9 / 2, 11 / 2, 6] =
      Inr [1 / 2, 3 / 4, 1, 1, 3 / 4, 1 / 2]"
    by (simp add: np_gradient_def upt_rec)
  have iv: "inertial_vector (state_buffer ?s) (last_pos ?s) = Inr 27.25"
    by (simp add: inertial_vector_def g gg py_last_def)
  from no_threat_sentinel [OF e w] obtain m where
    im: "inertial_vector (state_buffer ?s) (last_pos ?s) = Inr m" and
    pr: "fst (predict ?s) =
       Inr (mixture_output
              [(m, 0.2 + 0.1 * 10.0, 1 - (1 / 10.1) * 0.8 - 0.05),
               (m, 0.2 + 0.1 * 10.0, (1 / 10.1) * 0.8),
               (last_pos ?s, 4.0, 0.05)])"
    by blast
  have meq: "m = 27.25" using im iv by simp
  have lp: "last_pos ?s = 21" by simp
  from pr [unfolded meq lp] e w show ?thesis by blast
qed

subsection \<open>Record shape\<close>

text \<open>
  C4, as the interface description words it, fails: the record that a new estimator
  returns has no field \<^verbatim>\<open>kind\<close> (nor \<^verbatim>\<open>family\<close>, \<^verbatim>\<open>location\<close>), so it has neither of
  the two described shapes.
\<close>

theorem spec_record_shape_counterexample:
  "fst (predict (NewtonStateEngine_init :: string NewtonStateEngine)) =
     Inr (PyDict [(''density'',
                   PyDict [(''type'', PyStr ''scipy''), (''name'', PyStr ''norm''),
                           (''params'', PyDict [(''loc'', PyNum 0), (''scale'', PyNum 2)])]),
                  (''weight'', PyNum 1)])
   \<and> \<not> spec_prediction_record
         (PyDict [(''density'',
                   PyDict [(''type'', PyStr ''scipy''), (''name'', PyStr ''norm''),
                           (''params'', PyDict [(''loc'', PyNum 0), (''scale'', PyNum 2)])]),
                  (''weight'', PyNum 1)])"
  by (simp add: predict_def NewtonStateEngine_init_def norm_density_def
      spec_prediction_record_def spec_single_record_def spec_mixture_record_def)

text \<open>
  C4, amended. For every estimator state \<^verbatim>\<open>predict\<close> returns a record (it never raises)
  of one of two shapes: \<^verbatim>\<open>{"density": {"type": "scipy", "name": "norm", "params":
  {"loc": number, "scale": number}}, "weight": number}\<close>, or \<^verbatim>\<open>{"density": {"type":
  "mixture", "components": [...]}, "weight": number}\<close> where every component is a record
  of the first shape.
\<close>

theorem predict_record_shape:
  "\<exists>v. fst (predict self) = Inr v \<and> (is_weighted_norm v \<or> is_weighted_mixture v)"
proof (cases "length (state_buffer self) < 5")
  case True
  then show ?thesis
    by (simp add: predict_def is_weighted_norm_literal)
next
  case False
  then have "5 \<le> length (state_buffer self)" by simp
  from predict_warm [OF this] show ?thesis
    using is_weighted_mixture_output by auto
qed

subsection \<open>Ingestion\<close>

text \<open>
  C6. From an estimator whose history does not exceed its capacity (a new one has an
  empty history and capacity 25), ingesting more observations than the capacity, each
  with a signal position, leaves a history of exactly \<open>capacity\<close> samples: the last
  \<open>capacity\<close> positions ingested, in the order of ingestion.
\<close>

theorem bounded_history:
  "length (state_buffer self) \<le> buffer_size self \<Longrightarrow> buffer_size self < length obs \<Longrightarrow>
     length (state_buffer (ticks self (map observe obs))) = buffer_size self \<and>
     state_buffer (ticks self (map observe obs)) =
       drop (length obs - buffer_size self) (map fst obs)"
proof -
  assume a: "length (state_buffer self) \<le> buffer_size self" "buffer_size self < length obs"
  have "state_buffer (ticks self (map observe obs)) =
       drop (length (state_buffer self) + length obs - buffer_size self)
            (state_buffer self @ map fst obs)"
    by (rule conjunct2 [OF ticks_window [OF a(1)]])
  also have "\<dots> = drop (length obs - buffer_size self) (map fst obs)"
    using a by simp
  finally show ?thesis using a by simp
qed

theorem bounded_history_witness:
  "length (state_buffer (NewtonStateEngine_init :: string NewtonStateEngine))
     \<le> buffer_size (NewtonStateEngine_init :: string NewtonStateEngine) \<and>
   buffer_size (NewtonStateEngine_init :: string NewtonStateEngine)
     < length (map (\<lambda>i. (real i, None :: real option, None :: string option, ())) [0..<26]) \<and>
   length (state_buffer (ticks (NewtonStateEngine_init :: string NewtonStateEngine)
     (map observe (map (\<lambda>i. (real i, None, None, ())) [0..<26])))) = 25 \<and>
   state_buffer (ticks (NewtonStateEngine_init :: string NewtonStateEngine)
     (map observe (map (\<lambda>i. (real i, None, None, ())) [0..<26]))) = map real [1..<26]"
proof -
  let ?s = "NewtonStateEngine_init :: string NewtonStateEngine"
  let ?obs = "map (\<lambda>i. (real i, None :: real option, None :: string option, ())) [0..<26]"
  have a: "length (state_buffer ?s) \<le> buffer_size ?s"
    by (simp add: NewtonStateEngine_init_def)
  have b: "buffer_size ?s < length ?obs"
    by (simp add: NewtonStateEngine_init_def)
  have c: "buffer_size ?s = 25" by (simp add: NewtonStateEngine_init_def)
  have d: "drop (length ?obs - buffer_size ?s) (map fst ?obs) = map real [1..<26]"
    unfolding c by (simp add: drop_map comp_def)
  from bounded_history [OF a b] a b c d show ?thesis by simp
qed

text \<open>
  C7. From every estimator state, after two observations that carry the same threat
  identifier \<open>k\<close>, with positions \<open>p1\<close> and then \<open>p2\<close>, the threat field has exactly one
  entry for \<open>k\<close>, and it holds \<open>p2\<close>.
\<close>

theorem threat_overwrite:
  "(let self' = tick (tick self \<lparr>dove_location = d1, falcon_location = Some p1, falcon_id = Some k\<rparr> m1)
                   \<lparr>dove_location = d2, falcon_location = Some p2, falcon_id = Some k\<rparr> m2
    in length (filter (\<lambda>e. fst e = k) (DAList.impl_of (field_vectors self'))) = 1 \<and>
       DAList.lookup (field_vectors self') k = Some p2)"
  by (simp add: tick_def Let_def DAList.update.rep_eq update_one_entry split: option.splits)

subsection \<open>Frame\<close>

text \<open>
  C9. \<^verbatim>\<open>predict\<close> leaves the estimator as it found it: history, last known position,
  threat field and capacity are the same after the call, in every state.
\<close>

theorem predict_frame: "snd (predict self) = self"
  by (simp add: predict_def Let_def split: sum.splits prod.splits option.splits)

end
